theory Spec2Isabelle
  imports Main "HOL-Library.Multiset"
begin

section \<open>JavaScript values used by the message board adapter\<close>

text \<open>
  The adapter (\<^verbatim>\<open>src/index.js\<close>) loads one JSON document, edits it in memory and posts
  the whole document back.  The model below follows the handlers of that file line by line.

  Conventions of the embedding.
  \<^item> A JavaScript string is a \<^typ>\<open>string\<close>: a list of code units, each below 256.
  \<^item> A JavaScript number that holds an integer is an \<^typ>\<open>int\<close>.  JavaScript numbers
    are IEEE doubles, so the two agree exactly on the safe integers (magnitude below
    \<open>2 ^ 53\<close>); statements that depend on how a number prints carry that bound.
    Fractional JSON numbers are outside the model.
  \<^item> \<^verbatim>\<open>undefined\<close> (a missing property, a missing array element, a missing argument)
    is \<open>None\<close>.
  \<^item> An exception thrown inside a handler is a value of type \<open>error\<close>; every handler
    catches all of them and returns an error payload, so a handler returns
    \<open>error + response\<close>.
\<close>

datatype json =
    JNull
  | JBool bool
  | JNum int
  | JStr string
  | JArr "json list"
  | JObj "(string \<times> json) list"

text \<open>
  An object is the list of its properties in creation order; a document produced by
  \<^verbatim>\<open>JSON.parse\<close> has pairwise different keys.
\<close>

type_synonym jsobject = "(string \<times> json) list"

datatype number = NaN | Num int

text \<open>
  Truthiness (\<^verbatim>\<open>ToBoolean\<close>) of a JSON value and of an optional value; \<open>falsy_num x\<close> is
  \<^verbatim>\<open>!x\<close> for a number.
\<close>

fun truthy :: "json \<Rightarrow> bool" where
  "truthy JNull = False"
| "truthy (JBool b) = b"
| "truthy (JNum n) = (n \<noteq> 0)"
| "truthy (JStr s) = (s \<noteq> [])"
| "truthy (JArr xs) = True"
| "truthy (JObj ps) = True"

fun truthy_opt :: "json option \<Rightarrow> bool" where
  "truthy_opt None = False"
| "truthy_opt (Some v) = truthy v"

fun truthy_str :: "string option \<Rightarrow> bool" where
  "truthy_str None = False"
| "truthy_str (Some s) = (s \<noteq> [])"

fun falsy_num :: "number \<Rightarrow> bool" where
  "falsy_num NaN = True"
| "falsy_num (Num n) = (n = 0)"

fun isArray :: "json option \<Rightarrow> bool" where
  "isArray (Some (JArr xs)) = True"
| "isArray _ = False"

subsection \<open>Characters and strings\<close>

definition isDigit :: "char \<Rightarrow> bool" where
  "isDigit c = (48 \<le> (of_char c :: nat) \<and> (of_char c :: nat) \<le> 57)"

definition isHexDigit :: "char \<Rightarrow> bool" where
  "isHexDigit c =
     (let n = (of_char c :: nat)
      in (48 \<le> n \<and> n \<le> 57) \<or> (65 \<le> n \<and> n \<le> 70) \<or> (97 \<le> n \<and> n \<le> 102))"

definition digitValue :: "char \<Rightarrow> int" where
  "digitValue c =
     (let n = (of_char c :: nat)
      in if 48 \<le> n \<and> n \<le> 57 then int n - 48
         else if 65 \<le> n \<and> n \<le> 70 then int n - 55
         else int n - 87)"

text \<open>
  \<^verbatim>\<open>StrWhiteSpaceChar\<close> among the code units below 256: TAB, LF, VT, FF, CR, space and
  the no-break space.
\<close>

definition isWhiteSpace :: "char \<Rightarrow> bool" where
  "isWhiteSpace c =
     (let n = (of_char c :: nat)
      in (9 \<le> n \<and> n \<le> 13) \<or> n = 32 \<or> n = 160)"

text \<open>
  \<^verbatim>\<open>String.prototype.toLowerCase\<close> on code units below 256: the ASCII capitals and the
  Latin-1 capitals (all of \<open>0xC0 .. 0xDE\<close> but the multiplication sign) move up by 32.
\<close>

definition lowerChar :: "char \<Rightarrow> char" where
  "lowerChar c =
     (let n = (of_char c :: nat)
      in if (65 \<le> n \<and> n \<le> 90) \<or> (192 \<le> n \<and> n \<le> 222 \<and> n \<noteq> 215)
         then char_of (n + 32) else c)"

definition toLowerCase :: "string \<Rightarrow> string" where
  "toLowerCase s = map lowerChar s"

text \<open>\<^verbatim>\<open>s.replace(pat, rep)\<close> with a string pattern: only the first occurrence.\<close>

fun replace :: "string \<Rightarrow> string \<Rightarrow> string \<Rightarrow> string" where
  "replace pat rep [] = (if pat = [] then rep else [])"
| "replace pat rep (c # cs) =
     (if take (length pat) (c # cs) = pat then rep @ drop (length pat) (c # cs)
      else c # replace pat rep cs)"

text \<open>
  \<^verbatim>\<open>s.split(sep)\<close> with a string separator.  \<open>split_from sep acc s\<close> scans \<open>s\<close> with
  the current part accumulated, reversed, in \<open>acc\<close>.
\<close>

fun split_from :: "string \<Rightarrow> string \<Rightarrow> string \<Rightarrow> string list" where
  "split_from sep acc [] = [rev acc]"
| "split_from [] acc (c # cs) = [rev acc]"
| "split_from (p # ps) acc (c # cs) =
     (if c = p \<and> take (length ps) cs = ps
      then rev acc # split_from (p # ps) [] (drop (length ps) cs)
      else split_from (p # ps) (c # acc) cs)"

definition split :: "string \<Rightarrow> string \<Rightarrow> string list" where
  "split sep s = (if sep = [] then map (\<lambda>c. [c]) s else split_from sep [] s)"

subsection \<open>Numbers\<close>

definition mathInt :: "int \<Rightarrow> string \<Rightarrow> int" where
  "mathInt R Z = foldl (\<lambda>a c. a * R + digitValue c) 0 Z"

text \<open>
  \<^verbatim>\<open>parseInt(s)\<close> with no radix: leading white space is skipped, one sign is read, a
  \<^verbatim>\<open>0x\<close> or \<^verbatim>\<open>0X\<close> prefix selects radix 16, and the longest prefix of digits of the
  radix is the value; no digit at all gives \<^verbatim>\<open>NaN\<close>.
\<close>

definition parseInt :: "string \<Rightarrow> number" where
  "parseInt inputString =
     (let S = dropWhile isWhiteSpace inputString;
          sign = (if S \<noteq> [] \<and> hd S = CHR ''-'' then - 1 else 1);
          S1 = (if S \<noteq> [] \<and> (hd S = CHR ''+'' \<or> hd S = CHR ''-'') then tl S else S);
          hex = (take 2 S1 = ''0x'' \<or> take 2 S1 = ''0X'');
          S2 = (if hex then drop 2 S1 else S1);
          Z = (if hex then takeWhile isHexDigit S2 else takeWhile isDigit S2)
      in if Z = [] then NaN else Num (sign * mathInt (if hex then 16 else 10) Z))"

text \<open>Decimal digits of a natural number, most significant first.\<close>

definition digitChar :: "nat \<Rightarrow> char" where
  "digitChar d = ''0123456789'' ! d"

fun natToString :: "nat \<Rightarrow> string" where
  "natToString n = (if n < 10 then [digitChar n] else natToString (n div 10) @ [digitChar (n mod 10)])"

declare natToString.simps [simp del]

text \<open>\<^verbatim>\<open>Number.prototype.toString\<close> and template interpolation of an integer.\<close>

definition numberToString :: "int \<Rightarrow> string" where
  "numberToString n = (if n < 0 then CHR ''-'' # natToString (nat (- n)) else natToString (nat n))"

section \<open>The ID codec\<close>

text \<open>
  The errors a handler throws, by kind.  \<open>MissingRequiredField\<close> carries the message
  (\<^verbatim>\<open>messageId is required\<close>, \<^verbatim>\<open>title and content are required\<close>); \<open>InvalidIdFormat\<close>
  and \<open>MessageNotFound\<close> carry the ID of \<^verbatim>\<open>Invalid message ID format: ...\<close> and
  \<^verbatim>\<open>Message not found: ...\<close>; \<open>PersistenceFailure\<close> carries the HTTP status of a failed
  load or save; \<open>TypeError\<close> is a method call on a value that has no such method.
\<close>

datatype error =
    MissingRequiredField string
  | InvalidIdFormat string
  | MessageNotFound string
  | PersistenceFailure nat
  | TypeError

text \<open>Encoding, as in \<^verbatim>\<open>`tab${tabKey}-msg${idx}`\<close>.\<close>

definition encode_id :: "string \<Rightarrow> nat \<Rightarrow> string" where
  "encode_id tabKey idx = ''tab'' @ tabKey @ ''-msg'' @ natToString idx"

text \<open>
  Decoding, the same three statements in \<^verbatim>\<open>get_message\<close>, \<^verbatim>\<open>update_message\<close> and
  \<^verbatim>\<open>delete_message\<close>:
  \<^verbatim>\<open>const [tabId, msgIdx] = id.replace('tab', '').split('-msg').map(part => parseInt(part));
  if (!tabId || isNaN(msgIdx)) throw new Error(`Invalid message ID format: ${id}`);
  const tabKey = tabId.toString();\<close>
  \<open>id_parts\<close> is the array before the map; the destructuring reads its first two
  elements, a missing second one being \<^verbatim>\<open>undefined\<close>.
\<close>

definition id_parts :: "string \<Rightarrow> string list" where
  "id_parts messageId = split ''-msg'' (replace ''tab'' '''' messageId)"

definition tabId_of :: "string \<Rightarrow> number" where
  "tabId_of messageId = (case id_parts messageId of [] \<Rightarrow> NaN | p # ps \<Rightarrow> parseInt p)"

definition msgIdx_of :: "string \<Rightarrow> number" where
  "msgIdx_of messageId = (case id_parts messageId of p # q # ps \<Rightarrow> parseInt q | _ \<Rightarrow> NaN)"

definition decode_id :: "string \<Rightarrow> error + (string \<times> int)" where
  "decode_id messageId =
     (if falsy_num (tabId_of messageId) \<or> msgIdx_of messageId = NaN
      then Inl (InvalidIdFormat messageId)
      else
        (case (tabId_of messageId, msgIdx_of messageId) of
           (Num tabId, Num msgIdx) \<Rightarrow> Inr (numberToString tabId, msgIdx)
         | _ \<Rightarrow> Inl (InvalidIdFormat messageId)))"

section \<open>Objects and arrays\<close>

text \<open>Property read \<^verbatim>\<open>obj[key]\<close> and property write \<^verbatim>\<open>obj[key] = v\<close>.\<close>

definition obj_get :: "(string \<times> 'a) list \<Rightarrow> string \<Rightarrow> 'a option" where
  "obj_get obj key = map_of obj key"

fun obj_set :: "(string \<times> 'a) list \<Rightarrow> string \<Rightarrow> 'a \<Rightarrow> (string \<times> 'a) list" where
  "obj_set [] key v = [(key, v)]"
| "obj_set ((k, x) # ps) key v = (if k = key then (k, v) # ps else (k, x) # obj_set ps key v)"

text \<open>
  \<^verbatim>\<open>Object.keys\<close>: the keys that are array indices (the decimal form of a number below
  \<open>2 ^ 32 - 1\<close>) come first, in ascending numeric order; the other keys follow in
  creation order.
\<close>

definition isArrayIndex :: "string \<Rightarrow> bool" where
  "isArrayIndex key =
     (key \<noteq> [] \<and> list_all isDigit key \<and> natToString (nat (mathInt 10 key)) = key
      \<and> mathInt 10 key < 4294967295)"

definition Object_keys :: "(string \<times> 'a) list \<Rightarrow> string list" where
  "Object_keys obj =
     sort_key (mathInt 10) (filter isArrayIndex (map fst obj))
     @ filter (\<lambda>key. \<not> isArrayIndex key) (map fst obj)"

text \<open>
  \<^verbatim>\<open>arr[i]\<close> for a number \<open>i\<close>: \<^verbatim>\<open>undefined\<close> outside \<open>0 .. length - 1\<close>; the elements of
  a value that is an array; \<^verbatim>\<open>arr.splice(i, 1)\<close> for an index in range;
  \<^verbatim>\<open>arr.slice(start, end)\<close>, where a negative bound counts from the end.
\<close>

definition array_get :: "'a list \<Rightarrow> int \<Rightarrow> 'a option" where
  "array_get xs i = (if 0 \<le> i \<and> i < int (length xs) then Some (xs ! nat i) else None)"

fun elements :: "json option \<Rightarrow> json list" where
  "elements (Some (JArr xs)) = xs"
| "elements _ = []"

definition splice1 :: "'a list \<Rightarrow> int \<Rightarrow> 'a list" where
  "splice1 xs i = take (nat i) xs @ drop (Suc (nat i)) xs"

definition slice :: "'a list \<Rightarrow> int \<Rightarrow> int \<Rightarrow> 'a list" where
  "slice xs start end =
     (let len = int (length xs);
          k = (if start < 0 then max (len + start) 0 else min start len);
          final = (if end < 0 then max (len + end) 0 else min end len)
      in take (nat (final - k)) (drop (nat k) xs))"

subsection \<open>\<^verbatim>\<open>JSON.stringify\<close> of a parsed value\<close>

definition hexChar :: "nat \<Rightarrow> char" where
  "hexChar d = ''0123456789abcdef'' ! d"

definition quoteChar :: "char \<Rightarrow> string" where
  "quoteChar c =
     (let n = (of_char c :: nat)
      in if n = 34 then [CHR 0x5C, CHR 0x22]
         else if n = 92 then [CHR 0x5C, CHR 0x5C]
         else if n = 8 then [CHR 0x5C, CHR ''b'']
         else if n = 12 then [CHR 0x5C, CHR ''f'']
         else if n = 10 then [CHR 0x5C, CHR ''n'']
         else if n = 13 then [CHR 0x5C, CHR ''r'']
         else if n = 9 then [CHR 0x5C, CHR ''t'']
         else if n < 32 then [CHR 0x5C, CHR ''u'', CHR ''0'', CHR ''0'', hexChar (n div 16), hexChar (n mod 16)]
         else [c])"

definition quoteJSONString :: "string \<Rightarrow> string" where
  "quoteJSONString s = [CHR 0x22] @ concat (map quoteChar s) @ [CHR 0x22]"

fun join :: "string \<Rightarrow> string list \<Rightarrow> string" where
  "join sep [] = []"
| "join sep [x] = x"
| "join sep (x # y # ys) = x @ sep @ join sep (y # ys)"

definition render_props :: "(string \<times> string) list \<Rightarrow> string" where
  "render_props rendered =
     ''{'' @ join '','' (map (\<lambda>key. quoteJSONString key @ '':'' @
              (case obj_get rendered key of Some text \<Rightarrow> text | None \<Rightarrow> []))
            (Object_keys rendered)) @ ''}''"

fun JSON_stringify :: "json \<Rightarrow> string"
  and stringify_elems :: "json list \<Rightarrow> string list"
  and stringify_props :: "(string \<times> json) list \<Rightarrow> (string \<times> string) list" where
  "JSON_stringify JNull = ''null''"
| "JSON_stringify (JBool b) = (if b then ''true'' else ''false'')"
| "JSON_stringify (JNum n) = numberToString n"
| "JSON_stringify (JStr s) = quoteJSONString s"
| "JSON_stringify (JArr xs) = ''['' @ join '','' (stringify_elems xs) @ '']''"
| "JSON_stringify (JObj ps) = render_props (stringify_props ps)"
| "stringify_elems [] = []"
| "stringify_elems (x # xs) = JSON_stringify x # stringify_elems xs"
| "stringify_props [] = []"
| "stringify_props ((k, v) # ps) = (k, JSON_stringify v) # stringify_props ps"

section \<open>The static tab table and the category resolver\<close>

definition TAB_NAMES :: "(string \<times> string) list" where
  "TAB_NAMES =
     [(''1'', ''First Messages''), (''2'', ''Second Messages''), (''3'', ''Third Messages''),
      (''4'', ''Fourth Messages''), (''5'', ''Short First''), (''6'', ''Not Interested''),
      (''7'', ''Interested''), (''8'', ''Affiliate''), (''9'', ''Old Connections''),
      (''10'', ''New Task'')]"

fun str :: "string option \<Rightarrow> string" where
  "str None = []"
| "str (Some s) = s"

text \<open>
  The scan of \<^verbatim>\<open>create_message\<close> and \<^verbatim>\<open>update_message\<close>, for any table \<open>names\<close>:
  \<^verbatim>\<open>Object.keys(names).forEach(key => {
    if (names[key].toLowerCase() === category.toLowerCase()) tabKey = key; });\<close>
  \<open>tabKey\<close> is the value the variable holds before the scan.
\<close>

definition name_matches :: "(string \<times> string) list \<Rightarrow> string \<Rightarrow> string \<Rightarrow> bool" where
  "name_matches names category key =
     (toLowerCase (str (obj_get names key)) = toLowerCase category)"

definition scan_names :: "(string \<times> string) list \<Rightarrow> string \<Rightarrow> string \<Rightarrow> string" where
  "scan_names names tabKey category =
     foldl (\<lambda>found key. if name_matches names category key then key else found)
       tabKey (Object_keys names)"

text \<open>\<^verbatim>\<open>TAB_NAMES[tabKey] || `Tab ${tabKey}`\<close>, for the keys the handlers compute.\<close>

definition category_name :: "string \<Rightarrow> string" where
  "category_name tabKey =
     (if truthy_str (obj_get TAB_NAMES tabKey) then str (obj_get TAB_NAMES tabKey)
      else ''Tab '' @ tabKey)"

section \<open>The document store seen by the adapter\<close>

text \<open>
  \<open>stored\<close> is the document the server holds; \<open>load_status\<close> and \<open>save_status\<close> are the
  HTTP statuses it answers a \<^verbatim>\<open>GET /data.json\<close> and a \<^verbatim>\<open>POST /api/save-data\<close> with;
  \<open>posted\<close> logs the body of every save request sent; \<open>localeTime\<close> and \<open>isoTime\<close> are
  what \<^verbatim>\<open>new Date().toLocaleString()\<close> and \<^verbatim>\<open>new Date().toISOString()\<close> give.
  The server (\<^verbatim>\<open>handleSaveData\<close>) replaces its document by the posted one exactly when it
  answers 200.

  Every handler calls \<^verbatim>\<open>apiRequest('/data.json')\<close>, the branch of \<^verbatim>\<open>apiRequest\<close> that
  returns the whole document; a response that is not \<^verbatim>\<open>ok\<close> makes it throw.  The loaded
  value is taken to be a JSON object.  The body of a save request is
  \<^verbatim>\<open>JSON.stringify(allData)\<close>, which the server parses back: the same keys and values.
\<close>

record world =
  stored :: jsobject
  load_status :: nat
  save_status :: nat
  posted :: "jsobject list"
  localeTime :: string
  isoTime :: string

definition http_ok :: "nat \<Rightarrow> bool" where
  "http_ok status = (200 \<le> status \<and> status \<le> 299)"

definition apiRequest :: "world \<Rightarrow> error + jsobject" where
  "apiRequest w =
     (if http_ok (load_status w) then Inr (stored w) else Inl (PersistenceFailure (load_status w)))"

definition save_data :: "world \<Rightarrow> jsobject \<Rightarrow> world" where
  "save_data w allData =
     w\<lparr>posted := posted w @ [allData],
       stored := (if http_ok (save_status w) then allData else stored w)\<rparr>"

section \<open>The tool handlers\<close>

text \<open>
  The arguments of a tool call, each one optional.  The strings are the schema's string
  properties; \<open>limit\<close> and \<open>page\<close> are the schema's numbers, taken to be integers, for
  which \<^verbatim>\<open>parseInt(n)\<close> is \<open>n\<close>.  The \<^verbatim>\<open>author\<close> argument is read by no handler.
\<close>

record args =
  messageId :: "string option"
  title :: "string option"
  content :: "string option"
  category :: "string option"
  limit :: "int option"
  page :: "int option"

record message =
  msg_id :: string
  msg_title :: string
  msg_content :: string
  msg_tabId :: string
  msg_category :: string

record updated =
  upd_id :: string
  upd_content :: "json option"
  upd_tabId :: string
  upd_category :: string
  upd_updatedAt :: string
  upd_title :: "string option"

record receipt =
  del_messageId :: string
  del_tabId :: string
  del_category :: string
  del_deletedAt :: string

datatype response =
    MessageList "message list"
  | MessageData message
  | Created message string
  | Updated updated
  | Deleted receipt
  | Categories "(string \<times> string) list"

text \<open>
  The message object built from an array element; \<^verbatim>\<open>message.substring\<close> throws a
  \<^verbatim>\<open>TypeError\<close> when the element is not a string.
\<close>

definition summary :: "string \<Rightarrow> string" where
  "summary m = take 50 m @ (if length m > 50 then ''...'' else [])"

fun message_view :: "string \<Rightarrow> string \<Rightarrow> json \<Rightarrow> error + message" where
  "message_view mid tabKey (JStr m) =
     Inr \<lparr>msg_id = mid, msg_title = summary m, msg_content = m, msg_tabId = tabKey,
          msg_category = category_name tabKey\<rparr>"
| "message_view mid tabKey v = Inl TypeError"

text \<open>The two nested \<^verbatim>\<open>forEach\<close> loops of \<^verbatim>\<open>get_messages\<close>; an exception ends both.\<close>

fun tab_messages :: "string \<Rightarrow> nat \<Rightarrow> json list \<Rightarrow> error + message list" where
  "tab_messages tabKey idx [] = Inr []"
| "tab_messages tabKey idx (m # ms) =
     (case message_view (encode_id tabKey idx) tabKey m of
        Inl e \<Rightarrow> Inl e
      | Inr v \<Rightarrow>
          (case tab_messages tabKey (Suc idx) ms of
             Inl e \<Rightarrow> Inl e
           | Inr vs \<Rightarrow> Inr (v # vs)))"

fun flatten :: "jsobject \<Rightarrow> string list \<Rightarrow> error + message list" where
  "flatten allData [] = Inr []"
| "flatten allData (tabKey # tabs) =
     (case (if isArray (obj_get allData tabKey)
            then tab_messages tabKey 0 (elements (obj_get allData tabKey)) else Inr []) of
        Inl e \<Rightarrow> Inl e
      | Inr vs \<Rightarrow>
          (case flatten allData tabs of
             Inl e \<Rightarrow> Inl e
           | Inr ws \<Rightarrow> Inr (vs @ ws)))"

definition numeric_tabs :: "jsobject \<Rightarrow> string list" where
  "numeric_tabs allData =
     filter (\<lambda>key. key \<noteq> ''lastSaved'' \<and> parseInt key \<noteq> NaN) (Object_keys allData)"

definition target_tabs :: "jsobject \<Rightarrow> args \<Rightarrow> string list" where
  "target_tabs allData a =
     (if truthy_str (category a)
      then filter (name_matches TAB_NAMES (str (category a))) (Object_keys TAB_NAMES)
      else numeric_tabs allData)"

definition paginate :: "args \<Rightarrow> 'a list \<Rightarrow> 'a list" where
  "paginate a messages =
     (case limit a of
        None \<Rightarrow> messages
      | Some l \<Rightarrow>
          if l = 0 then messages
          else (let p = (case page a of None \<Rightarrow> 1 | Some q \<Rightarrow> if q = 0 then 1 else q);
                    start = (p - 1) * l
                in slice messages start (start + l)))"

definition get_messages :: "world \<Rightarrow> args \<Rightarrow> world \<times> (error + response)" where
  "get_messages w a =
     (case apiRequest w of
        Inl e \<Rightarrow> (w, Inl e)
      | Inr allData \<Rightarrow>
          (case flatten allData (target_tabs allData a) of
             Inl e \<Rightarrow> (w, Inl e)
           | Inr messages \<Rightarrow> (w, Inr (MessageList (paginate a messages)))))"

text \<open>
  The existence test shared by \<^verbatim>\<open>get_message\<close>, \<^verbatim>\<open>update_message\<close> and
  \<^verbatim>\<open>delete_message\<close>:
  \<^verbatim>\<open>!allData[tabKey] || !Array.isArray(allData[tabKey]) || !allData[tabKey][msgIdx]\<close>.
\<close>

definition message_missing :: "jsobject \<Rightarrow> string \<Rightarrow> int \<Rightarrow> bool" where
  "message_missing allData tabKey msgIdx =
     (\<not> truthy_opt (obj_get allData tabKey) \<or> \<not> isArray (obj_get allData tabKey)
      \<or> \<not> truthy_opt (array_get (elements (obj_get allData tabKey)) msgIdx))"

definition get_message :: "world \<Rightarrow> args \<Rightarrow> world \<times> (error + response)" where
  "get_message w a =
     (if \<not> truthy_str (messageId a) then (w, Inl (MissingRequiredField ''messageId is required''))
      else
        (case apiRequest w of
           Inl e \<Rightarrow> (w, Inl e)
         | Inr allData \<Rightarrow>
             (case decode_id (str (messageId a)) of
                Inl e \<Rightarrow> (w, Inl e)
              | Inr (tabKey, msgIdx) \<Rightarrow>
                  if message_missing allData tabKey msgIdx
                  then (w, Inl (MessageNotFound (str (messageId a))))
                  else
                    (case array_get (elements (obj_get allData tabKey)) msgIdx of
                       None \<Rightarrow> (w, Inl (MessageNotFound (str (messageId a))))
                     | Some m \<Rightarrow>
                         (case message_view (str (messageId a)) tabKey m of
                            Inl e \<Rightarrow> (w, Inl e)
                          | Inr v \<Rightarrow> (w, Inr (MessageData v)))))))"

text \<open>
  Making the tab an array (\<^verbatim>\<open>create_message\<close> and the destination of a move), and
  \<^verbatim>\<open>allData[tabKey].push(v)\<close>.
\<close>

definition ensure_array :: "jsobject \<Rightarrow> string \<Rightarrow> jsobject" where
  "ensure_array allData tabKey =
     (if \<not> truthy_opt (obj_get allData tabKey) then obj_set allData tabKey (JArr [])
      else if \<not> isArray (obj_get allData tabKey)
      then obj_set allData tabKey
             (JArr [case obj_get allData tabKey of
                      Some (JStr oldContent) \<Rightarrow> JStr oldContent
                    | Some oldContent \<Rightarrow> JStr (JSON_stringify oldContent)
                    | None \<Rightarrow> JNull])
      else allData)"

definition push :: "jsobject \<Rightarrow> string \<Rightarrow> json \<Rightarrow> jsobject" where
  "push allData tabKey v =
     obj_set allData tabKey (JArr (elements (obj_get allData tabKey) @ [v]))"

definition create_message :: "world \<Rightarrow> args \<Rightarrow> world \<times> (error + response)" where
  "create_message w a =
     (if \<not> truthy_str (title a) \<or> \<not> truthy_str (content a)
      then (w, Inl (MissingRequiredField ''title and content are required''))
      else
        (case apiRequest w of
           Inl e \<Rightarrow> (w, Inl e)
         | Inr allData \<Rightarrow>
             (let tabKey = (if truthy_str (category a)
                            then scan_names TAB_NAMES ''1'' (str (category a)) else ''1'');
                  allData1 = push (ensure_array allData tabKey) tabKey (JStr (str (content a)));
                  w1 = save_data w allData1
              in if \<not> http_ok (save_status w) then (w1, Inl (PersistenceFailure (save_status w)))
                 else (w1, Inr (Created
                        \<lparr>msg_id = ''tab'' @ tabKey @ ''-msg'' @
                            numberToString (int (length (elements (obj_get allData1 tabKey))) - 1),
                         msg_title = str (title a), msg_content = str (content a),
                         msg_tabId = tabKey, msg_category = category_name tabKey\<rparr>
                        (isoTime w))))))"

text \<open>The in-memory edit of \<^verbatim>\<open>update_message\<close>, between the existence test and the save.\<close>

definition set_content :: "jsobject \<Rightarrow> string \<Rightarrow> int \<Rightarrow> args \<Rightarrow> jsobject" where
  "set_content allData tabKey msgIdx a =
     (if truthy_str (content a)
      then obj_set allData tabKey
             (JArr ((elements (obj_get allData tabKey))[nat msgIdx := JStr (str (content a))]))
      else allData)"

definition move_message :: "jsobject \<Rightarrow> string \<Rightarrow> int \<Rightarrow> string \<Rightarrow> jsobject" where
  "move_message allData tabKey msgIdx newTabKey =
     (case array_get (elements (obj_get allData tabKey)) msgIdx of
        None \<Rightarrow> allData
      | Some messageContent \<Rightarrow>
          (let allData1 = obj_set allData tabKey
                            (JArr (splice1 (elements (obj_get allData tabKey)) msgIdx))
           in push (ensure_array allData1 newTabKey) newTabKey messageContent))"

definition change_category :: "jsobject \<Rightarrow> string \<Rightarrow> int \<Rightarrow> args \<Rightarrow> jsobject" where
  "change_category allData tabKey msgIdx a =
     (if truthy_str (category a)
      then (let newTabKey = scan_names TAB_NAMES tabKey (str (category a))
            in if newTabKey \<noteq> tabKey then move_message allData tabKey msgIdx newTabKey
               else allData)
      else allData)"

definition update_message :: "world \<Rightarrow> args \<Rightarrow> world \<times> (error + response)" where
  "update_message w a =
     (if \<not> truthy_str (messageId a) then (w, Inl (MissingRequiredField ''messageId is required''))
      else
        (case apiRequest w of
           Inl e \<Rightarrow> (w, Inl e)
         | Inr allData \<Rightarrow>
             (case decode_id (str (messageId a)) of
                Inl e \<Rightarrow> (w, Inl e)
              | Inr (tabKey, msgIdx) \<Rightarrow>
                  if message_missing allData tabKey msgIdx
                  then (w, Inl (MessageNotFound (str (messageId a))))
                  else
                    (let allData1 = change_category (set_content allData tabKey msgIdx a)
                                      tabKey msgIdx a;
                         allData2 = obj_set allData1 ''lastSaved'' (JStr (localeTime w));
                         w1 = save_data w allData2
                     in if \<not> http_ok (save_status w)
                        then (w1, Inl (PersistenceFailure (save_status w)))
                        else (w1, Inr (Updated
                               \<lparr>upd_id = str (messageId a),
                                upd_content =
                                  (if truthy_str (content a) then Some (JStr (str (content a)))
                                   else array_get (elements (obj_get allData2 tabKey)) msgIdx),
                                upd_tabId = tabKey, upd_category = category_name tabKey,
                                upd_updatedAt = isoTime w,
                                upd_title =
                                  (if truthy_str (title a) then title a else None)\<rparr>))))))"

definition delete_message :: "world \<Rightarrow> args \<Rightarrow> world \<times> (error + response)" where
  "delete_message w a =
     (if \<not> truthy_str (messageId a) then (w, Inl (MissingRequiredField ''messageId is required''))
      else
        (case apiRequest w of
           Inl e \<Rightarrow> (w, Inl e)
         | Inr allData \<Rightarrow>
             (case decode_id (str (messageId a)) of
                Inl e \<Rightarrow> (w, Inl e)
              | Inr (tabKey, msgIdx) \<Rightarrow>
                  if message_missing allData tabKey msgIdx
                  then (w, Inl (MessageNotFound (str (messageId a))))
                  else
                    (let allData1 = obj_set allData tabKey
                                      (JArr (splice1 (elements (obj_get allData tabKey)) msgIdx));
                         allData2 = obj_set allData1 ''lastSaved'' (JStr (localeTime w));
                         w1 = save_data w allData2
                     in if \<not> http_ok (save_status w)
                        then (w1, Inl (PersistenceFailure (save_status w)))
                        else (w1, Inr (Deleted
                               \<lparr>del_messageId = str (messageId a), del_tabId = tabKey,
                                del_category = category_name tabKey,
                                del_deletedAt = isoTime w\<rparr>))))))"

definition get_categories :: "world \<Rightarrow> args \<Rightarrow> world \<times> (error + response)" where
  "get_categories w a =
     (w, Inr (Categories (map (\<lambda>key. (key, str (obj_get TAB_NAMES key))) (Object_keys TAB_NAMES))))"

section \<open>Notions used in the statements\<close>

text \<open>A part that starts with \<^verbatim>\<open>0x\<close> or \<^verbatim>\<open>0X\<close> is read in radix 16.\<close>

definition hex_prefixed :: "string \<Rightarrow> bool" where
  "hex_prefixed s = (take 2 s = ''0x'' \<or> take 2 s = ''0X'')"

subsection \<open>Example inputs\<close>

definition no_args :: args where
  "no_args = \<lparr>messageId = None, title = None, content = None, category = None,
              limit = None, page = None\<rparr>"

definition board :: "jsobject \<Rightarrow> world" where
  "board doc = \<lparr>stored = doc, load_status = 200, save_status = 200, posted = [],
                localeTime = ''11/2/2026, 9:00:00 AM'', isoTime = ''2026-11-02T09:00:00.000Z''\<rparr>"

definition four_messages :: jsobject where
  "four_messages = [(''0'', JArr [JStr ''a'', JStr ''b'', JStr ''c'', JStr ''d''])]"

definition hello_doc :: jsobject where
  "hello_doc = [(''1'', JArr [JStr ''hello'']), (''lastSaved'', JStr ''t0'')]"

definition empty_message_doc :: jsobject where
  "empty_message_doc = [(''1'', JArr [JStr ''''])]"


subsection \<open>Failure results of the validation steps\<close>

fun validation_failure :: "error + response \<Rightarrow> bool" where
  "validation_failure (Inl (MissingRequiredField m)) = True"
| "validation_failure (Inl (InvalidIdFormat m)) = True"
| "validation_failure (Inl (MessageNotFound m)) = True"
| "validation_failure r = False"

subsection \<open>Well-formed documents and the listing the specification describes\<close>












subsection \<open>The sequence a tab value stands for, and the number of messages\<close>

text \<open>
  \<open>claimed_sequence\<close> follows the words of the specification: an absent tab is the empty
  sequence, a sequence is itself, any other value is wrapped into a one-element sequence
  (a value that is not a string being stringified).  \<open>coerced\<close> is what the code makes of a
  tab value: a falsy value (\<^verbatim>\<open>null\<close>, \<^verbatim>\<open>false\<close>, 0, the empty string) counts as absent.
  \<open>create_target\<close> is the tab key \<open>create_message\<close> resolves.  \<open>total_messages\<close> is the
  number of messages of a document: the lengths of the sequences under the keys that
  \<open>get_messages\<close> takes for tabs.
\<close>

fun claimed_sequence :: "json option \<Rightarrow> json list" where
  "claimed_sequence None = []"
| "claimed_sequence (Some (JArr xs)) = xs"
| "claimed_sequence (Some (JStr s)) = [JStr s]"
| "claimed_sequence (Some v) = [JStr (JSON_stringify v)]"

definition coerced :: "json option \<Rightarrow> json list" where
  "coerced v = (if truthy_opt v then claimed_sequence v else [])"

definition create_target :: "args \<Rightarrow> string" where
  "create_target a =
     (if truthy_str (category a) then scan_names TAB_NAMES ''1'' (str (category a)) else ''1'')"

definition total_messages :: "jsobject \<Rightarrow> nat" where
  "total_messages D = sum_list (map (\<lambda>key. length (elements (obj_get D key))) (numeric_tabs D))"

definition tab_key :: "string \<Rightarrow> bool" where
  "tab_key key = (key \<noteq> ''lastSaved'' \<and> parseInt key \<noteq> NaN)"

definition entry_count :: "string \<times> json \<Rightarrow> nat" where
  "entry_count e = (if tab_key (fst e) then length (elements (Some (snd e))) else 0)"

definition key_count :: "jsobject \<Rightarrow> string \<Rightarrow> nat" where
  "key_count D key = (if tab_key key then length (elements (obj_get D key)) else 0)"

definition legacy_doc :: jsobject where
  "legacy_doc = [(''1'', JArr [JStr ''a'']), (''2'', JStr ''legacy'')]"

definition blank_tab_doc :: jsobject where
  "blank_tab_doc = [(''1'', JStr '''')]"

definition blank_destination_doc :: jsobject where
  "blank_destination_doc = [(''1'', JArr [JStr ''a'']), (''2'', JStr '''')]"

definition two_tab_doc :: jsobject where
  "two_tab_doc =
     [(''1'', JArr [JStr ''hello'']), (''lastSaved'', JStr ''t0''), (''2'', JArr [JStr ''world''])]"

section \<open>Digits, numbers and the parts of an ID\<close>

lemma digit_range: "d < 10 \<Longrightarrow> d \<in> {0,1,2,3,4,5,6,7,8,9::nat}"
  by auto

lemma isDigit_digitChar: "d < 10 \<Longrightarrow> isDigit (digitChar d)"
  by (drule digit_range) (auto simp: isDigit_def digitChar_def)

lemma digitValue_digitChar: "d < 10 \<Longrightarrow> digitValue (digitChar d) = int d"
  by (drule digit_range) (auto simp: digitValue_def digitChar_def)

lemma natToString_digits: "list_all isDigit (natToString n)"
  by (induction n rule: natToString.induct) (subst natToString.simps, simp add: isDigit_digitChar)

lemma natToString_nonempty: "natToString n \<noteq> []"
  by (subst natToString.simps) simp

lemma mathInt_snoc: "mathInt R (Z @ [c]) = mathInt R Z * R + digitValue c"
  by (simp add: mathInt_def)

lemma mathInt_natToString: "mathInt 10 (natToString n) = int n"
proof (induction n rule: natToString.induct)
  case (1 n)
  show ?case
  proof (cases "n < 10")
    case True
    then show ?thesis by (subst natToString.simps) (simp add: mathInt_def digitValue_digitChar)
  next
    case False
    with 1 have "mathInt 10 (natToString (n div 10)) = int (n div 10)" by simp
    with False show ?thesis
      by (subst natToString.simps) (simp add: mathInt_snoc digitValue_digitChar zdiv_int zmod_int)
  qed
qed

lemma natToString_zero_iff: "natToString n = ''0'' \<longleftrightarrow> n = 0"
proof
  assume "natToString n = ''0''"
  with mathInt_natToString[of n] have "int n = mathInt 10 ''0''" by simp
  then show "n = 0" by (simp add: mathInt_def digitValue_def)
next
  assume "n = 0" then show "natToString n = ''0''"
    by (simp add: natToString.simps digitChar_def)
qed

lemma isDigit_not_special:
  "isDigit c \<Longrightarrow>
     \<not> isWhiteSpace c \<and> c \<noteq> CHR ''-'' \<and> c \<noteq> CHR ''+'' \<and> c \<noteq> CHR ''x'' \<and> c \<noteq> CHR ''X''"
  by (auto simp: isDigit_def isWhiteSpace_def)

lemma takeWhile_digits_append:
  "list_all isDigit ds \<Longrightarrow> (rest = [] \<or> \<not> isDigit (hd rest)) \<Longrightarrow>
     takeWhile isDigit (ds @ rest) = ds"
  by (induction ds) (auto simp: takeWhile_eq_Nil_iff neq_Nil_conv)

lemma parseInt_digits_append:
  assumes "ds \<noteq> []" "list_all isDigit ds" "rest = [] \<or> \<not> isDigit (hd rest)"
    and "\<not> hex_prefixed (ds @ rest)"
  shows "parseInt (ds @ rest) = Num (mathInt 10 ds)"
proof -
  obtain d ds' where ds: "ds = d # ds'" using assms(1) by (cases ds) auto
  with assms(2) have d: "isDigit d" by simp
  have tw: "takeWhile isDigit (ds @ rest) = ds"
    using assms by (simp add: takeWhile_digits_append)
  have dw: "dropWhile isWhiteSpace (ds @ rest) = ds @ rest"
    using d ds isDigit_not_special by simp
  have ne: "ds @ rest \<noteq> []" and hd: "hd (ds @ rest) = d" using ds by simp_all
  have nohex: "(take 2 (ds @ rest) = ''0x'' \<or> take 2 (ds @ rest) = ''0X'') = False"
    using assms(4) by (simp add: hex_prefixed_def)
  have nosign: "d \<noteq> CHR ''-''" "d \<noteq> CHR ''+''" using isDigit_not_special[OF d] by simp_all
  show ?thesis
    unfolding parseInt_def Let_def dw
    by (simp only: ne hd nohex nosign tw assms(1) if_False simp_thms mult_1)
qed

lemma not_hex_digits: "list_all isDigit ds \<Longrightarrow> \<not> hex_prefixed ds"
  by (cases ds; cases "tl ds") (auto simp: hex_prefixed_def isDigit_def)

lemma parseInt_digits: "ds \<noteq> [] \<Longrightarrow> list_all isDigit ds \<Longrightarrow> parseInt ds = Num (mathInt 10 ds)"
  using parseInt_digits_append[of ds "[]"] by (simp add: not_hex_digits)

lemma parseInt_natToString: "parseInt (natToString n) = Num (int n)"
  by (simp add: parseInt_digits natToString_digits natToString_nonempty mathInt_natToString)




lemma numberToString_nat: "numberToString (int n) = natToString n"
  by (simp add: numberToString_def)

section \<open>The ID codec: round trip, rejection and leniency\<close>





lemma numberToString_zero_iff: "numberToString n = ''0'' \<longleftrightarrow> n = 0"
proof (cases "n < 0")
  case True
  then show ?thesis by (simp add: numberToString_def)
next
  case False
  then have "numberToString n = natToString (nat n)" by (simp add: numberToString_def)
  with False show ?thesis by (simp add: natToString_zero_iff)
qed

lemma tabId_of_empty: "tabId_of [] = NaN"
  by (simp add: tabId_of_def id_parts_def split_def parseInt_def)

lemma decode_id_cases:
  "decode_id s = (if tabId_of s = NaN \<or> tabId_of s = Num 0 \<or> msgIdx_of s = NaN
                  then Inl (InvalidIdFormat s)
                  else Inr (numberToString (case tabId_of s of Num n \<Rightarrow> n | NaN \<Rightarrow> 0),
                            (case msgIdx_of s of Num i \<Rightarrow> i | NaN \<Rightarrow> 0)))"
  by (simp add: decode_id_def split: number.splits)

lemma decode_id_error: "decode_id s = Inl e \<Longrightarrow> e = InvalidIdFormat s"
  by (simp add: decode_id_cases split: if_splits)

lemma decode_id_key_nonzero: "decode_id s = Inr (k, i) \<Longrightarrow> k \<noteq> ''0''"
  by (auto simp: decode_id_cases numberToString_zero_iff split: if_splits number.splits)

lemma zero_tab_rejected:
  assumes "tabId_of s = Num 0" "http_ok (load_status w)" "messageId a = Some s"
  shows "get_message w a = (w, Inl (InvalidIdFormat s))"
    and "update_message w a = (w, Inl (InvalidIdFormat s))"
    and "delete_message w a = (w, Inl (InvalidIdFormat s))"
proof -
  have ne: "s \<noteq> []" using assms(1) tabId_of_empty by auto
  have d: "decode_id s = Inl (InvalidIdFormat s)" using assms(1) by (simp add: decode_id_cases)
  show "get_message w a = (w, Inl (InvalidIdFormat s))"
    using ne d assms by (simp add: get_message_def apiRequest_def)
  show "update_message w a = (w, Inl (InvalidIdFormat s))"
    using ne d assms by (simp add: update_message_def apiRequest_def)
  show "delete_message w a = (w, Inl (InvalidIdFormat s))"
    using ne d assms by (simp add: delete_message_def apiRequest_def)
qed


lemma board_loads: "http_ok (load_status (board doc))" "stored (board doc) = doc"
  by (simp_all add: board_def http_ok_def)

text \<open>
  C4.  Decoding fails, and then with \<open>InvalidIdFormat\<close>, exactly when the tab part parses to
  \<^verbatim>\<open>NaN\<close> or to 0, or the index part is missing or parses to \<^verbatim>\<open>NaN\<close>.  An ID whose tab
  part parses to 0 is rejected as \<open>InvalidIdFormat\<close> by \<open>get_message\<close>, \<open>update_message\<close>
  and \<open>delete_message\<close> (once the document is loaded), nothing is saved, and no ID decodes
  to the tab key \<^verbatim>\<open>"0"\<close>.
\<close>

theorem invalid_id_format:
  "(decode_id s = Inl (InvalidIdFormat s))
      = (tabId_of s = NaN \<or> tabId_of s = Num 0 \<or> msgIdx_of s = NaN)
   \<and> (\<forall>e. decode_id s = Inl e \<longrightarrow> e = InvalidIdFormat s)
   \<and> (\<forall>k i. decode_id s = Inr (k, i) \<longrightarrow> k \<noteq> ''0'')
   \<and> (tabId_of s = Num 0 \<and> http_ok (load_status w) \<and> messageId a = Some s \<longrightarrow>
        get_message w a = (w, Inl (InvalidIdFormat s))
        \<and> update_message w a = (w, Inl (InvalidIdFormat s))
        \<and> delete_message w a = (w, Inl (InvalidIdFormat s)))"
proof (intro conjI allI impI)
  show "(decode_id s = Inl (InvalidIdFormat s))
      = (tabId_of s = NaN \<or> tabId_of s = Num 0 \<or> msgIdx_of s = NaN)"
    by (simp add: decode_id_cases)
next
  fix e assume "decode_id s = Inl e" then show "e = InvalidIdFormat s" by (rule decode_id_error)
next
  fix k i assume "decode_id s = Inr (k, i)"
  then show "k \<noteq> ''0''" by (rule decode_id_key_nonzero)
next
  assume h: "tabId_of s = Num 0 \<and> http_ok (load_status w) \<and> messageId a = Some s"
  show "get_message w a = (w, Inl (InvalidIdFormat s))"
    using h by (blast intro: zero_tab_rejected(1))
  show "update_message w a = (w, Inl (InvalidIdFormat s))"
    using h by (blast intro: zero_tab_rejected(2))
  show "delete_message w a = (w, Inl (InvalidIdFormat s))"
    using h by (blast intro: zero_tab_rejected(3))
qed

theorem invalid_id_format_witness:
  "decode_id ''tab0-msg3'' = Inl (InvalidIdFormat ''tab0-msg3'')
   \<and> get_message (board four_messages) (no_args\<lparr>messageId := Some ''tab0-msg3''\<rparr>)
       = (board four_messages, Inl (InvalidIdFormat ''tab0-msg3''))
   \<and> update_message (board four_messages) (no_args\<lparr>messageId := Some ''tab0-msg3''\<rparr>)
       = (board four_messages, Inl (InvalidIdFormat ''tab0-msg3''))
   \<and> delete_message (board four_messages) (no_args\<lparr>messageId := Some ''tab0-msg3''\<rparr>)
       = (board four_messages, Inl (InvalidIdFormat ''tab0-msg3''))"
proof -
  note T = invalid_id_format [of "''tab0-msg3''" "board four_messages"
      "no_args\<lparr>messageId := Some ''tab0-msg3''\<rparr>"]
  have z: "tabId_of ''tab0-msg3'' = Num 0"
    by (simp add: tabId_of_def id_parts_def split_def parseInt_def isWhiteSpace_def isDigit_def
        mathInt_def digitValue_def)
  have m: "messageId (no_args\<lparr>messageId := Some ''tab0-msg3''\<rparr>) = Some ''tab0-msg3''" by simp
  have "decode_id ''tab0-msg3'' = Inl (InvalidIdFormat ''tab0-msg3'')"
    using conjunct1[OF T] z by blast
  moreover have
    "get_message (board four_messages) (no_args\<lparr>messageId := Some ''tab0-msg3''\<rparr>)
       = (board four_messages, Inl (InvalidIdFormat ''tab0-msg3''))
     \<and> update_message (board four_messages) (no_args\<lparr>messageId := Some ''tab0-msg3''\<rparr>)
       = (board four_messages, Inl (InvalidIdFormat ''tab0-msg3''))
     \<and> delete_message (board four_messages) (no_args\<lparr>messageId := Some ''tab0-msg3''\<rparr>)
       = (board four_messages, Inl (InvalidIdFormat ''tab0-msg3''))"
    using conjunct2[OF conjunct2[OF conjunct2[OF T]]] z board_loads(1) m by blast
  ultimately show ?thesis by blast
qed




section \<open>Objects, the category scan and the shape of the handlers\<close>

lemma obj_get_obj_set: "obj_get (obj_set obj k v) k' = (if k' = k then Some v else obj_get obj k')"
  by (induction obj) (auto simp: obj_get_def)

lemma keys_obj_set:
  "map fst (obj_set obj k v) = (if k \<in> fst ` set obj then map fst obj else map fst obj @ [k])"
  by (induction obj) force+

lemma save_data_changes: "save_data w d \<noteq> w"
proof
  assume "save_data w d = w"
  then have "posted (save_data w d) = posted w" by simp
  then show False by (simp add: save_data_def)
qed

lemma create_shape:
  "fst (create_message w a) = w
   \<or> (fst (create_message w a)
         = save_data w
             (push (ensure_array (stored w)
                      (if truthy_str (category a)
                       then scan_names TAB_NAMES ''1'' (str (category a)) else ''1''))
                (if truthy_str (category a)
                 then scan_names TAB_NAMES ''1'' (str (category a)) else ''1'')
                (JStr (str (content a))))
       \<and> \<not> validation_failure (snd (create_message w a))
       \<and> truthy_str (title a) \<and> truthy_str (content a) \<and> http_ok (load_status w))"
  by (auto simp: create_message_def apiRequest_def Let_def)

lemma update_shape:
  "fst (update_message w a) = w
   \<or> (\<not> validation_failure (snd (update_message w a))
       \<and> truthy_str (messageId a) \<and> http_ok (load_status w)
       \<and> (\<exists>k i. decode_id (str (messageId a)) = Inr (k, i) \<and> \<not> message_missing (stored w) k i
             \<and> fst (update_message w a)
                 = save_data w
                     (obj_set (change_category (set_content (stored w) k i a) k i a)
                        ''lastSaved'' (JStr (localeTime w)))))"
  by (auto simp: update_message_def apiRequest_def Let_def split: sum.splits)

lemma delete_shape:
  "fst (delete_message w a) = w
   \<or> (\<not> validation_failure (snd (delete_message w a))
       \<and> truthy_str (messageId a) \<and> http_ok (load_status w)
       \<and> (\<exists>k i. decode_id (str (messageId a)) = Inr (k, i) \<and> \<not> message_missing (stored w) k i
             \<and> fst (delete_message w a)
                 = save_data w
                     (obj_set
                        (obj_set (stored w) k (JArr (splice1 (elements (obj_get (stored w) k)) i)))
                        ''lastSaved'' (JStr (localeTime w)))))"
  by (auto simp: delete_message_def apiRequest_def Let_def split: sum.splits)

lemma foldl_last_match:
  "foldl (\<lambda>found key. if P key then key else found) d ks
     = (if filter P ks = [] then d else last (filter P ks))"
  by (induction ks rule: rev_induct) auto

lemma scan_names_last:
  "scan_names names tabKey c
     = (if filter (name_matches names c) (Object_keys names) = [] then tabKey
        else last (filter (name_matches names c) (Object_keys names)))"
  unfolding scan_names_def by (rule foldl_last_match)

lemma Object_keys_TAB_NAMES: "Object_keys TAB_NAMES = map fst TAB_NAMES"
  by code_simp

lemma scan_names_range: "scan_names names d c \<in> insert d (set (Object_keys names))"
proof (cases "filter (name_matches names c) (Object_keys names) = []")
  case True
  then show ?thesis by (simp add: scan_names_last)
next
  case False
  then have "last (filter (name_matches names c) (Object_keys names))
      \<in> set (filter (name_matches names c) (Object_keys names))" by (rule last_in_set)
  with False show ?thesis by (simp add: scan_names_last)
qed

lemma lastSaved_not_in_table: "''lastSaved'' \<notin> set (Object_keys TAB_NAMES)"
proof -
  have "''lastSaved'' \<notin> fst ` set TAB_NAMES" by (simp add: TAB_NAMES_def)
  then show ?thesis by (simp add: Object_keys_TAB_NAMES)
qed

lemma scan_TAB_NAMES_not_lastSaved: "''lastSaved'' \<noteq> scan_names TAB_NAMES ''1'' c"
  using scan_names_range[of TAB_NAMES "''1''" c] lastSaved_not_in_table by auto

lemma obj_get_ensure_other: "k' \<noteq> k \<Longrightarrow> obj_get (ensure_array obj k) k' = obj_get obj k'"
  by (simp add: ensure_array_def obj_get_obj_set)

lemma obj_get_push_other: "k' \<noteq> k \<Longrightarrow> obj_get (push obj k v) k' = obj_get obj k'"
  by (simp add: push_def obj_get_obj_set)

lemma create_lastSaved:
  assumes "create_message w a = (w', Inr r)"
  shows "\<exists>d. posted w' = posted w @ [d] \<and> stored w' = d
             \<and> obj_get d ''lastSaved'' = obj_get (stored w) ''lastSaved''"
  using assms
  by (auto simp: create_message_def apiRequest_def Let_def save_data_def obj_get_push_other
      obj_get_ensure_other scan_TAB_NAMES_not_lastSaved split: if_splits)

lemma update_lastSaved:
  assumes "update_message w a = (w', Inr r)"
  shows "\<exists>d. posted w' = posted w @ [d] \<and> stored w' = d
             \<and> obj_get d ''lastSaved'' = Some (JStr (localeTime w))"
  using assms
  by (auto simp: update_message_def apiRequest_def Let_def save_data_def obj_get_obj_set
       split: if_splits sum.splits)

lemma delete_lastSaved:
  assumes "delete_message w a = (w', Inr r)"
  shows "\<exists>d. posted w' = posted w @ [d] \<and> stored w' = d
             \<and> obj_get d ''lastSaved'' = Some (JStr (localeTime w))"
  using assms
  by (auto simp: delete_message_def apiRequest_def Let_def save_data_def obj_get_obj_set
       split: if_splits sum.splits)





text \<open>
  C8.  When \<open>create_message\<close>, \<open>update_message\<close> or \<open>delete_message\<close> returns a failure for
  a missing required field, an invalid ID or a message not found, no save request was sent
  and the stored document is as before (the world is unchanged).  Whenever one of them
  does send a save request, every validation step has succeeded and the body is the
  document after the whole in-memory edit.
\<close>

theorem no_save_on_validation_failure:
  "(validation_failure (snd (create_message w a)) \<longrightarrow> fst (create_message w a) = w)
   \<and> (validation_failure (snd (update_message w a)) \<longrightarrow> fst (update_message w a) = w)
   \<and> (validation_failure (snd (delete_message w a)) \<longrightarrow> fst (delete_message w a) = w)
   \<and> (fst (create_message w a) \<noteq> w \<longrightarrow>
        truthy_str (title a) \<and> truthy_str (content a) \<and> http_ok (load_status w)
        \<and> fst (create_message w a)
            = save_data w
                (push (ensure_array (stored w)
                         (if truthy_str (category a)
                          then scan_names TAB_NAMES ''1'' (str (category a)) else ''1''))
                   (if truthy_str (category a)
                    then scan_names TAB_NAMES ''1'' (str (category a)) else ''1'')
                   (JStr (str (content a)))))
   \<and> (fst (update_message w a) \<noteq> w \<longrightarrow>
        truthy_str (messageId a) \<and> http_ok (load_status w)
        \<and> (\<exists>k i. decode_id (str (messageId a)) = Inr (k, i) \<and> \<not> message_missing (stored w) k i
              \<and> fst (update_message w a)
                  = save_data w
                      (obj_set (change_category (set_content (stored w) k i a) k i a)
                         ''lastSaved'' (JStr (localeTime w)))))
   \<and> (fst (delete_message w a) \<noteq> w \<longrightarrow>
        truthy_str (messageId a) \<and> http_ok (load_status w)
        \<and> (\<exists>k i. decode_id (str (messageId a)) = Inr (k, i) \<and> \<not> message_missing (stored w) k i
              \<and> fst (delete_message w a)
                  = save_data w
                      (obj_set
                         (obj_set (stored w) k
                            (JArr (splice1 (elements (obj_get (stored w) k)) i)))
                         ''lastSaved'' (JStr (localeTime w)))))"
  using create_shape[of w a] update_shape[of w a] delete_shape[of w a]
  by blast

theorem no_save_on_validation_failure_witness:
  "fst (create_message (board hello_doc) no_args) = board hello_doc
   \<and> fst (update_message (board hello_doc) (no_args\<lparr>messageId := Some ''tab0-msg0''\<rparr>))
       = board hello_doc
   \<and> fst (delete_message (board hello_doc) (no_args\<lparr>messageId := Some ''tab1-msg5''\<rparr>))
       = board hello_doc
   \<and> fst (create_message (board hello_doc)
            (no_args\<lparr>title := Some ''X'', content := Some ''world''\<rparr>))
       = save_data (board hello_doc) (push (ensure_array hello_doc ''1'') ''1'' (JStr ''world''))
   \<and> (\<exists>k i. decode_id ''tab1-msg0'' = Inr (k, i) \<and> \<not> message_missing hello_doc k i
         \<and> fst (update_message (board hello_doc)
                  (no_args\<lparr>messageId := Some ''tab1-msg0'', content := Some ''bye''\<rparr>))
             = save_data (board hello_doc)
                 (obj_set
                    (change_category
                       (set_content hello_doc k i
                          (no_args\<lparr>messageId := Some ''tab1-msg0'', content := Some ''bye''\<rparr>))
                       k i (no_args\<lparr>messageId := Some ''tab1-msg0'', content := Some ''bye''\<rparr>))
                    ''lastSaved'' (JStr (localeTime (board hello_doc)))))
   \<and> (\<exists>k i. decode_id ''tab1-msg0'' = Inr (k, i) \<and> \<not> message_missing hello_doc k i
         \<and> fst (delete_message (board hello_doc) (no_args\<lparr>messageId := Some ''tab1-msg0''\<rparr>))
             = save_data (board hello_doc)
                 (obj_set (obj_set hello_doc k (JArr (splice1 (elements (obj_get hello_doc k)) i)))
                    ''lastSaved'' (JStr (localeTime (board hello_doc)))))"
proof -
  let ?w = "board hello_doc"
  let ?c = "no_args\<lparr>title := Some ''X'', content := Some ''world''\<rparr>"
  let ?u = "no_args\<lparr>messageId := Some ''tab1-msg0'', content := Some ''bye''\<rparr>"
  let ?d = "no_args\<lparr>messageId := Some ''tab1-msg0''\<rparr>"
  note T1 = no_save_on_validation_failure [of ?w no_args]
  note T2 = no_save_on_validation_failure [of ?w "no_args\<lparr>messageId := Some ''tab0-msg0''\<rparr>"]
  note T3 = no_save_on_validation_failure [of ?w "no_args\<lparr>messageId := Some ''tab1-msg5''\<rparr>"]
  note Tc = no_save_on_validation_failure [of ?w ?c]
  note Tu = no_save_on_validation_failure [of ?w ?u]
  note Td = no_save_on_validation_failure [of ?w ?d]
  have f1: "validation_failure (snd (create_message ?w no_args))"
    by code_simp
  have f2: "validation_failure
      (snd (update_message ?w (no_args\<lparr>messageId := Some ''tab0-msg0''\<rparr>)))"
    by code_simp
  have f3: "validation_failure
      (snd (delete_message ?w (no_args\<lparr>messageId := Some ''tab1-msg5''\<rparr>)))"
    by code_simp
  have p: "posted (fst (create_message ?w ?c)) \<noteq> []" "posted (fst (update_message ?w ?u)) \<noteq> []"
    "posted (fst (delete_message ?w ?d)) \<noteq> []"
    by code_simp+
  have "posted ?w = []" by (simp add: board_def)
  with p have n: "fst (create_message ?w ?c) \<noteq> ?w" "fst (update_message ?w ?u) \<noteq> ?w"
    "fst (delete_message ?w ?d) \<noteq> ?w"
    by auto
  have s: "stored ?w = hello_doc" "str (messageId ?u) = ''tab1-msg0''"
    "str (messageId ?d) = ''tab1-msg0''" "str (content ?c) = ''world''"
    "(if truthy_str (category ?c) then scan_names TAB_NAMES ''1'' (str (category ?c)) else ''1'')
       = ''1''"
    by (simp_all add: board_def no_args_def)
  have "fst (create_message ?w no_args) = ?w"
    using T1 f1 by blast
  moreover have "fst (update_message ?w (no_args\<lparr>messageId := Some ''tab0-msg0''\<rparr>)) = ?w"
    using T2 f2 by blast
  moreover have "fst (delete_message ?w (no_args\<lparr>messageId := Some ''tab1-msg5''\<rparr>)) = ?w"
    using T3 f3 by blast
  moreover have "fst (create_message ?w ?c)
       = save_data ?w (push (ensure_array hello_doc ''1'') ''1'' (JStr ''world''))"
    using Tc n(1) unfolding s by blast
  moreover have
    "\<exists>k i. decode_id ''tab1-msg0'' = Inr (k, i) \<and> \<not> message_missing hello_doc k i
         \<and> fst (update_message ?w ?u)
             = save_data ?w
                 (obj_set (change_category (set_content hello_doc k i ?u) k i ?u)
                    ''lastSaved'' (JStr (localeTime ?w)))"
    using Tu n(2) unfolding s by blast
  moreover have
    "\<exists>k i. decode_id ''tab1-msg0'' = Inr (k, i) \<and> \<not> message_missing hello_doc k i
         \<and> fst (delete_message ?w ?d)
             = save_data ?w
                 (obj_set (obj_set hello_doc k (JArr (splice1 (elements (obj_get hello_doc k)) i)))
                    ''lastSaved'' (JStr (localeTime ?w)))"
    using Td n(3) unfolding s by blast
  ultimately show ?thesis by blast
qed

text \<open>
  C7.  A successful \<open>create_message\<close> posts (and the server then stores) a document whose
  \<open>lastSaved\<close> is exactly that of the loaded document; a successful \<open>update_message\<close> and a
  successful \<open>delete_message\<close> post a document whose \<open>lastSaved\<close> is the current time.
\<close>

theorem lastSaved_asymmetry:
  "(create_message w a = (w', Inr r) \<longrightarrow>
      (\<exists>d. posted w' = posted w @ [d] \<and> stored w' = d
            \<and> obj_get d ''lastSaved'' = obj_get (stored w) ''lastSaved''))
   \<and> (update_message w a = (w', Inr r) \<longrightarrow>
      (\<exists>d. posted w' = posted w @ [d] \<and> stored w' = d
            \<and> obj_get d ''lastSaved'' = Some (JStr (localeTime w))))
   \<and> (delete_message w a = (w', Inr r) \<longrightarrow>
      (\<exists>d. posted w' = posted w @ [d] \<and> stored w' = d
            \<and> obj_get d ''lastSaved'' = Some (JStr (localeTime w))))"
  using create_lastSaved[of w a w' r] update_lastSaved[of w a w' r] delete_lastSaved[of w a w' r]
  by blast

theorem lastSaved_asymmetry_witness:
  "obj_get (stored (fst (create_message (board hello_doc)
        (no_args\<lparr>title := Some ''X'', content := Some ''world'',
                 category := Some ''Second Messages''\<rparr>)))) ''lastSaved''
     = Some (JStr ''t0'')
   \<and> obj_get (stored (fst (update_message (board hello_doc)
        (no_args\<lparr>messageId := Some ''tab1-msg0'', content := Some ''bye''\<rparr>)))) ''lastSaved''
     = Some (JStr (localeTime (board hello_doc)))
   \<and> obj_get (stored (fst (delete_message (board hello_doc)
        (no_args\<lparr>messageId := Some ''tab1-msg0''\<rparr>)))) ''lastSaved''
     = Some (JStr (localeTime (board hello_doc)))"
proof -
  let ?w = "board hello_doc"
  let ?c = "no_args\<lparr>title := Some ''X'', content := Some ''world'',
                 category := Some ''Second Messages''\<rparr>"
  let ?u = "no_args\<lparr>messageId := Some ''tab1-msg0'', content := Some ''bye''\<rparr>"
  let ?d = "no_args\<lparr>messageId := Some ''tab1-msg0''\<rparr>"
  have c: "isl (snd (create_message ?w ?c)) = False" by code_simp
  have u: "isl (snd (update_message ?w ?u)) = False" by code_simp
  have d: "isl (snd (delete_message ?w ?d)) = False" by code_simp
  obtain rc where rc: "create_message ?w ?c = (fst (create_message ?w ?c), Inr rc)"
    using c by (cases "create_message ?w ?c"; cases "snd (create_message ?w ?c)") auto
  obtain ru where ru: "update_message ?w ?u = (fst (update_message ?w ?u), Inr ru)"
    using u by (cases "update_message ?w ?u"; cases "snd (update_message ?w ?u)") auto
  obtain rd where rd: "delete_message ?w ?d = (fst (delete_message ?w ?d), Inr rd)"
    using d by (cases "delete_message ?w ?d"; cases "snd (delete_message ?w ?d)") auto
  have l: "obj_get (stored ?w) ''lastSaved'' = Some (JStr ''t0'')"
    by (simp add: board_def hello_doc_def obj_get_def)
  have "obj_get (stored (fst (create_message ?w ?c))) ''lastSaved'' = Some (JStr ''t0'')"
    using lastSaved_asymmetry [of ?w ?c "fst (create_message ?w ?c)" rc] rc l by auto
  moreover have "obj_get (stored (fst (update_message ?w ?u))) ''lastSaved''
      = Some (JStr (localeTime ?w))"
    using lastSaved_asymmetry [of ?w ?u "fst (update_message ?w ?u)" ru] ru by auto
  moreover have "obj_get (stored (fst (delete_message ?w ?d))) ''lastSaved''
      = Some (JStr (localeTime ?w))"
    using lastSaved_asymmetry [of ?w ?d "fst (delete_message ?w ?d)" rd] rd by auto
  ultimately show ?thesis by blast
qed



text \<open>
  C3, at the input where the code departs from it.  The document holds one message, the
  empty string, at index 0 of tab 1.  \<open>get_messages\<close> lists it under the ID
  \<^verbatim>\<open>tab1-msg0\<close>; \<open>get_message\<close> answers that very ID, whose index is within the bounds of
  the tab's sequence, with \<open>MessageNotFound\<close>.
\<close>

theorem empty_message_listed_but_not_found:
  "get_messages (board empty_message_doc) no_args
     = (board empty_message_doc,
        Inr (MessageList [\<lparr>msg_id = ''tab1-msg0'', msg_title = '''', msg_content = '''',
                            msg_tabId = ''1'', msg_category = ''First Messages''\<rparr>]))
   \<and> decode_id ''tab1-msg0'' = Inr (''1'', 0)
   \<and> obj_get empty_message_doc ''1'' = Some (JArr [JStr ''''])
   \<and> get_message (board empty_message_doc) (no_args\<lparr>messageId := Some ''tab1-msg0''\<rparr>)
     = (board empty_message_doc, Inl (MessageNotFound ''tab1-msg0''))"
  by code_simp

section \<open>Listing and pagination\<close>
















section \<open>Creating a message and moving a message between tabs\<close>

lemma ensure_array_get: "obj_get (ensure_array D k) k = Some (JArr (coerced (obj_get D k)))"
proof (cases "obj_get D k")
  case None
  then show ?thesis by (simp add: ensure_array_def coerced_def obj_get_obj_set)
next
  case (Some v)
  then show ?thesis
    by (cases v) (simp_all add: ensure_array_def coerced_def obj_get_obj_set)
qed

lemma push_get: "obj_get (push D k v) k = Some (JArr (elements (obj_get D k) @ [v]))"
  by (simp add: push_def obj_get_obj_set)

lemma create_target_unfold:
  "(if truthy_str (category a) then scan_names TAB_NAMES ''1'' (str (category a)) else ''1'')
     = create_target a"
  by (simp add: create_target_def)

lemma mset_Object_keys: "mset (Object_keys D) = mset (map fst D)"
  unfolding Object_keys_def by (simp add: mset_filter flip: multiset_partition)

lemma sum_list_perm:
  fixes f :: "'a \<Rightarrow> nat"
  shows "mset xs = mset ys \<Longrightarrow> sum_list (map f xs) = sum_list (map f ys)"
  by (metis mset_map sum_mset_sum_list)

lemma total_messages_keys:
  "total_messages D = sum_list (map (key_count D) (map fst D))"
proof -
  have "total_messages D = sum_list (map (key_count D) (Object_keys D))"
    unfolding total_messages_def numeric_tabs_def key_count_def tab_key_def
    by (induction "Object_keys D") (simp_all add: sum_list_map_filter')
  also have "\<dots> = sum_list (map (key_count D) (map fst D))"
    by (rule sum_list_perm) (rule mset_Object_keys)
  finally show ?thesis .
qed

lemma total_messages_entries:
  assumes "distinct (map fst D)"
  shows "total_messages D = sum_list (map entry_count D)"
proof -
  have "map (key_count D) (map fst D) = map entry_count D"
  proof (rule nth_equalityI)
    show "length (map (key_count D) (map fst D)) = length (map entry_count D)" by simp
  next
    fix i assume "i < length (map (key_count D) (map fst D))"
    then have i: "i < length D" by simp
    obtain k v where kv: "D ! i = (k, v)" by (cases "D ! i")
    from i have "D ! i \<in> set D" by simp
    with kv have "(k, v) \<in> set D" by simp
    with assms have "map_of D k = Some v" by (rule map_of_is_SomeI)
    with kv have "map_of D (fst (D ! i)) = Some (snd (D ! i))" by simp
    with i show "map (key_count D) (map fst D) ! i = map entry_count D ! i"
      by (simp add: key_count_def entry_count_def obj_get_def)
  qed
  then show ?thesis unfolding total_messages_keys by (simp only:)
qed

lemma entries_obj_set:
  "sum_list (map entry_count (obj_set D key v)) + key_count D key
     = sum_list (map entry_count D) + entry_count (key, v)"
  by (induction D) (auto simp: entry_count_def key_count_def obj_get_def)

lemma distinct_obj_set: "distinct (map fst D) \<Longrightarrow> distinct (map fst (obj_set D key v))"
  by (simp add: keys_obj_set)

lemma minus_not_space: "\<not> isWhiteSpace CHR ''-''"
  by (simp add: isWhiteSpace_def)

lemma parseInt_numberToString: "parseInt (numberToString n) \<noteq> NaN"
proof (cases "n < 0")
  case False
  then show ?thesis by (simp add: numberToString_def parseInt_natToString)
next
  case True
  let ?ds = "natToString (nat (- n))"
  have ne: "?ds \<noteq> []" by (rule natToString_nonempty)
  have dg: "list_all isDigit ?ds" by (rule natToString_digits)
  have tw: "takeWhile isDigit ?ds = ?ds" using dg by (simp add: takeWhile_eq_all_conv list_all_iff)
  have nh: "(take 2 ?ds = ''0x'' \<or> take 2 ?ds = ''0X'') = False"
    using not_hex_digits[OF dg] by (simp add: hex_prefixed_def)
  have "parseInt (CHR ''-'' # ?ds) = Num (- 1 * mathInt 10 ?ds)"
    unfolding parseInt_def Let_def
    by (simp only: dropWhile.simps minus_not_space if_False list.sel nh tw ne simp_thms if_True
        list.distinct not_False_eq_True)
  with True show ?thesis by (simp add: numberToString_def)
qed

lemma numberToString_not_lastSaved: "numberToString n \<noteq> ''lastSaved''"
proof (cases "n < 0")
  case True
  then show ?thesis by (simp add: numberToString_def)
next
  case False
  have "list_all isDigit (natToString (nat n))" by (rule natToString_digits)
  moreover have "\<not> list_all isDigit ''lastSaved''" by (simp add: isDigit_def)
  ultimately have "natToString (nat n) \<noteq> ''lastSaved''" by metis
  with False show ?thesis by (simp add: numberToString_def)
qed

lemma decode_key_tab: "decode_id s = Inr (k, i) \<Longrightarrow> tab_key k"
  by (auto simp: decode_id_cases tab_key_def parseInt_numberToString numberToString_not_lastSaved
      split: if_splits)

lemma table_keys_tab: "key \<in> set (Object_keys TAB_NAMES) \<Longrightarrow> tab_key key"
proof -
  have "list_all tab_key (Object_keys TAB_NAMES)" by code_simp
  then show "key \<in> set (Object_keys TAB_NAMES) \<Longrightarrow> tab_key key" by (simp add: list_all_iff)
qed

lemma not_tab_key_lastSaved: "\<not> tab_key ''lastSaved''"
  by (simp add: tab_key_def)

lemma found_message:
  assumes "\<not> message_missing D k i"
  obtains xs m where "obj_get D k = Some (JArr xs)" "array_get xs i = Some m"
    "0 \<le> i" "nat i < length xs" "xs ! nat i = m"
proof -
  from assms have a: "isArray (obj_get D k)"
    and t: "truthy_opt (array_get (elements (obj_get D k)) i)"
    by (simp_all add: message_missing_def)
  from a obtain xs where xs: "obj_get D k = Some (JArr xs)"
    by (cases "obj_get D k" rule: isArray.cases) auto
  from t xs obtain m where m: "array_get xs i = Some m" by (cases "array_get xs i") auto
  then have "0 \<le> i" "nat i < length xs" "xs ! nat i = m"
    by (auto simp: array_get_def split: if_splits)
  with xs m show ?thesis by (rule that)
qed

lemma length_splice1: "0 \<le> i \<Longrightarrow> nat i < length xs \<Longrightarrow> length (splice1 xs i) + 1 = length xs"
  by (simp add: splice1_def)

lemma entries_ensure_array:
  "sum_list (map entry_count (ensure_array D key))
     = sum_list (map entry_count D)
       + (if tab_key key \<and> truthy_opt (obj_get D key) \<and> \<not> isArray (obj_get D key) then 1 else 0)"
proof (cases "obj_get D key")
  case None
  then show ?thesis
    using entries_obj_set[of D key "JArr []"]
    by (simp add: ensure_array_def key_count_def entry_count_def split: if_splits)
next
  case (Some v)
  show ?thesis
  proof (cases "truthy v")
    case False
    then have "elements (Some v) = []" by (cases v) auto
    with False Some show ?thesis
      using entries_obj_set[of D key "JArr []"]
      by (simp add: ensure_array_def key_count_def entry_count_def split: if_splits)
  next
    case True
    show ?thesis
    proof (cases "isArray (Some v)")
      case True
      with Some show ?thesis by (cases v) (simp_all add: ensure_array_def)
    next
      case False
      then have e: "elements (Some v) = []" by (cases v) auto
      let ?x = "case obj_get D key of Some (JStr oldContent) \<Rightarrow> JStr oldContent
                    | Some oldContent \<Rightarrow> JStr (JSON_stringify oldContent) | None \<Rightarrow> JNull"
      have "ensure_array D key = obj_set D key (JArr [?x])"
        using Some True False by (simp add: ensure_array_def)
      with Some True False e show ?thesis
        using entries_obj_set[of D key "JArr [?x]"]
        by (simp add: key_count_def entry_count_def split: if_splits)
    qed
  qed
qed

lemma entries_push:
  "tab_key key \<Longrightarrow>
     sum_list (map entry_count (push D key v)) = sum_list (map entry_count D) + 1"
  using entries_obj_set[of D key "JArr (elements (obj_get D key) @ [v])"]
  by (simp add: push_def key_count_def entry_count_def split: if_splits)

lemma distinct_ensure_array: "distinct (map fst D) \<Longrightarrow> distinct (map fst (ensure_array D key))"
  by (simp add: ensure_array_def distinct_obj_set)

lemma distinct_push: "distinct (map fst D) \<Longrightarrow> distinct (map fst (push D key v))"
  by (simp add: push_def distinct_obj_set)

text \<open>
  C6, as amended.  With a non-empty title and content and a loaded document,
  \<open>create_message\<close> sends one save request.  In the posted document the target tab (the
  tab resolved from the category, \<^verbatim>\<open>"1"\<close> by default) is a sequence: the empty sequence when
  the tab was absent or held a falsy value, the one-element sequence of the old value
  (stringified unless a string) when it held a truthy value that is not a sequence, the old
  sequence otherwise; followed by the new content.  Every other key is as loaded.  When the
  save succeeds, the returned ID encodes the target tab and the new length minus 1.
\<close>

theorem create_appends:
  assumes "truthy_str (title a)" "truthy_str (content a)" "http_ok (load_status w)"
  shows "\<exists>d. fst (create_message w a) = save_data w d
     \<and> obj_get d (create_target a)
         = Some (JArr (coerced (obj_get (stored w) (create_target a)) @ [JStr (str (content a))]))
     \<and> (\<forall>key. key \<noteq> create_target a \<longrightarrow> obj_get d key = obj_get (stored w) key)
     \<and> (http_ok (save_status w) \<longrightarrow>
          snd (create_message w a)
            = Inr (Created
                \<lparr>msg_id = encode_id (create_target a)
                     (length (coerced (obj_get (stored w) (create_target a))
                              @ [JStr (str (content a))]) - 1),
                 msg_title = str (title a), msg_content = str (content a),
                 msg_tabId = create_target a, msg_category = category_name (create_target a)\<rparr>
                (isoTime w)))"
proof -
  let ?k = "create_target a"
  let ?d = "push (ensure_array (stored w) ?k) ?k (JStr (str (content a)))"
  have 1: "fst (create_message w a) = save_data w ?d"
    using assms by (simp add: create_message_def apiRequest_def Let_def create_target_def)
  have 2: "obj_get ?d ?k = Some (JArr (coerced (obj_get (stored w) ?k) @ [JStr (str (content a))]))"
    by (simp add: push_get ensure_array_get)
  have 3: "\<forall>key. key \<noteq> ?k \<longrightarrow> obj_get ?d key = obj_get (stored w) key"
    by (simp add: obj_get_push_other obj_get_ensure_other)
  have 4: "http_ok (save_status w) \<longrightarrow>
          snd (create_message w a)
            = Inr (Created
                \<lparr>msg_id = encode_id ?k
                     (length (coerced (obj_get (stored w) ?k) @ [JStr (str (content a))]) - 1),
                 msg_title = str (title a), msg_content = str (content a),
                 msg_tabId = ?k, msg_category = category_name ?k\<rparr>
                (isoTime w))"
    using assms
    by (simp add: create_message_def apiRequest_def Let_def create_target_unfold push_get
        ensure_array_get encode_id_def numberToString_nat)
  from 1 2 3 4 show ?thesis by blast
qed

theorem create_appends_witness:
  "obj_get (stored (fst (create_message (board legacy_doc)
       (no_args\<lparr>title := Some ''X'', content := Some ''world'',
                category := Some ''second messages''\<rparr>)))) ''2''
     = Some (JArr [JStr ''legacy'', JStr ''world''])
   \<and> snd (create_message (board legacy_doc)
       (no_args\<lparr>title := Some ''X'', content := Some ''world'',
                category := Some ''second messages''\<rparr>))
     = Inr (Created \<lparr>msg_id = ''tab2-msg1'', msg_title = ''X'', msg_content = ''world'',
                      msg_tabId = ''2'', msg_category = ''Second Messages''\<rparr>
             (isoTime (board legacy_doc)))"
proof -
  let ?w = "board legacy_doc"
  let ?a = "no_args\<lparr>title := Some ''X'', content := Some ''world'',
                category := Some ''second messages''\<rparr>"
  have h: "truthy_str (title ?a)" "truthy_str (content ?a)" "http_ok (load_status ?w)"
    by code_simp+
  have s: "http_ok (save_status ?w)" by code_simp
  have t: "create_target ?a = ''2''" by code_simp
  have c: "coerced (obj_get (stored ?w) ''2'') = [JStr ''legacy'']" by code_simp
  have n: "category_name ''2'' = ''Second Messages''" by code_simp
  have e: "encode_id ''2'' (length ([JStr ''legacy''] @ [JStr ''world'']) - 1) = ''tab2-msg1''"
    by code_simp
  have v: "str (content ?a) = ''world''" "str (title ?a) = ''X''" by simp_all
  from create_appends [OF h] obtain d where
    d: "fst (create_message ?w ?a) = save_data ?w d"
      "obj_get d ''2'' = Some (JArr ([JStr ''legacy''] @ [JStr ''world'']))"
      "http_ok (save_status ?w) \<longrightarrow> snd (create_message ?w ?a)
         = Inr (Created \<lparr>msg_id = ''tab2-msg1'', msg_title = ''X'', msg_content = ''world'',
                          msg_tabId = ''2'', msg_category = ''Second Messages''\<rparr> (isoTime ?w))"
    unfolding t c n e v by blast
  have "stored (fst (create_message ?w ?a)) = d" using d(1) s by (simp add: save_data_def)
  with d(2) d(3) s show ?thesis by simp
qed

text \<open>
  C6 as stated fails on a tab that is present, is not a sequence and is falsy.  Tab 1 holds
  the empty string: by the claim it becomes the two-element sequence of the empty string
  and the new content, and the new message has index 1; the code starts from the empty
  sequence and returns index 0.
\<close>

theorem falsy_tab_counterexample:
  "obj_get (stored (fst (create_message (board blank_tab_doc)
          (no_args\<lparr>title := Some ''X'', content := Some ''world''\<rparr>)))) ''1''
       \<noteq> Some (JArr (claimed_sequence (obj_get blank_tab_doc ''1'') @ [JStr ''world'']))
   \<and> obj_get blank_tab_doc ''1'' = Some (JStr '''')
   \<and> claimed_sequence (obj_get blank_tab_doc ''1'') @ [JStr ''world''] = [JStr '''', JStr ''world'']
   \<and> obj_get (stored (fst (create_message (board blank_tab_doc)
          (no_args\<lparr>title := Some ''X'', content := Some ''world''\<rparr>)))) ''1''
       = Some (JArr [JStr ''world''])
   \<and> snd (create_message (board blank_tab_doc)
          (no_args\<lparr>title := Some ''X'', content := Some ''world''\<rparr>))
       = Inr (Created \<lparr>msg_id = ''tab1-msg0'', msg_title = ''X'', msg_content = ''world'',
                        msg_tabId = ''1'', msg_category = ''First Messages''\<rparr>
               (isoTime (board blank_tab_doc)))"
  by code_simp

text \<open>
  C2, as amended.  Let the document be loaded with pairwise different keys, the ID decode to
  an existing message of tab \<open>k\<close>, no new content be given, and the category resolve to a
  tab key \<open>k'\<close> other than \<open>k\<close>.  Then \<open>update_message\<close> sends one save request; in the
  posted document the source tab is the old sequence without the element at the index (one
  shorter), and the destination tab is the sequence the code makes of the old destination
  value (empty when it was absent or falsy, the one-element sequence of a truthy value that
  is not a sequence) followed by the message.  The number of messages is unchanged when
  the destination was absent, falsy or a sequence; it grows by one when a truthy value that
  is not a sequence was turned into a first message.
\<close>

theorem move_between_tabs:
  assumes "http_ok (load_status w)" and "distinct (map fst (stored w))"
    and "truthy_str (messageId a)" and "decode_id (str (messageId a)) = Inr (k, i)"
    and "\<not> message_missing (stored w) k i"
    and "\<not> truthy_str (content a)"
    and "truthy_str (category a)" and "scan_names TAB_NAMES k (str (category a)) = k'"
    and "k' \<noteq> k"
  shows "\<exists>d m. fst (update_message w a) = save_data w d
       \<and> array_get (elements (obj_get (stored w) k)) i = Some m
       \<and> obj_get d k = Some (JArr (splice1 (elements (obj_get (stored w) k)) i))
       \<and> length (splice1 (elements (obj_get (stored w) k)) i) + 1
           = length (elements (obj_get (stored w) k))
       \<and> obj_get d k' = Some (JArr (coerced (obj_get (stored w) k') @ [m]))
       \<and> total_messages d
           = total_messages (stored w)
             + (if truthy_opt (obj_get (stored w) k') \<and> \<not> isArray (obj_get (stored w) k')
                then 1 else 0)"
proof -
  let ?D = "stored w"
  from assms(5) obtain xs m where xs: "obj_get ?D k = Some (JArr xs)"
    and m: "array_get xs i = Some m" and i: "0 \<le> i" "nat i < length xs"
    by (rule found_message)
  let ?D1 = "obj_set ?D k (JArr (splice1 xs i))"
  let ?D2 = "ensure_array ?D1 k'"
  let ?D3 = "push ?D2 k' m"
  let ?d = "obj_set ?D3 ''lastSaved'' (JStr (localeTime w))"
  have k: "tab_key k" using assms(4) by (rule decode_key_tab)
  have "k' \<in> insert k (set (Object_keys TAB_NAMES))"
    using scan_names_range[of TAB_NAMES k "str (category a)"] assms(8) by simp
  with assms(9) have k': "tab_key k'" by (auto intro: table_keys_tab)
  have nl: "k \<noteq> ''lastSaved''" "k' \<noteq> ''lastSaved''"
    using k k' not_tab_key_lastSaved by auto
  have el: "elements (obj_get ?D k) = xs" using xs by simp
  have mv: "move_message ?D k i k' = ?D3"
    by (simp add: move_message_def el m Let_def)
  have 1: "fst (update_message w a) = save_data w ?d"
    using assms(1,3,4,5,6,7,8,9)
    by (simp add: update_message_def apiRequest_def Let_def set_content_def change_category_def mv)
  have g1: "obj_get ?D1 k' = obj_get ?D k'" using assms(9) by (simp add: obj_get_obj_set)
  have 2: "obj_get ?d k = Some (JArr (splice1 xs i))"
    using nl assms(9)
    by (simp add: obj_get_obj_set obj_get_push_other obj_get_ensure_other)
  have 3: "obj_get ?d k' = Some (JArr (coerced (obj_get ?D k') @ [m]))"
    using nl assms(9) by (simp add: obj_get_obj_set push_get ensure_array_get g1)
  have d0: "distinct (map fst ?d)"
    using assms(2) by (intro distinct_obj_set distinct_push distinct_ensure_array)
  have e1: "sum_list (map entry_count ?D1) + 1 = sum_list (map entry_count ?D)"
    using entries_obj_set[of ?D k "JArr (splice1 xs i)"] k xs length_splice1[OF i]
    by (simp add: key_count_def entry_count_def split: if_splits)
  have e2: "sum_list (map entry_count ?D2)
      = sum_list (map entry_count ?D1)
        + (if truthy_opt (obj_get ?D k') \<and> \<not> isArray (obj_get ?D k') then 1 else 0)"
    using k' by (simp add: entries_ensure_array g1)
  have e3: "sum_list (map entry_count ?D3) = sum_list (map entry_count ?D2) + 1"
    using k' by (rule entries_push)
  have e4: "sum_list (map entry_count ?d) = sum_list (map entry_count ?D3)"
    using entries_obj_set[of ?D3 "''lastSaved''" "JStr (localeTime w)"] not_tab_key_lastSaved
    by (simp add: key_count_def entry_count_def split: if_splits)
  have 4: "total_messages ?d
      = total_messages ?D
        + (if truthy_opt (obj_get ?D k') \<and> \<not> isArray (obj_get ?D k') then 1 else 0)"
    using e1 e2 e3 e4 by (simp add: total_messages_entries[OF d0] total_messages_entries[OF assms(2)])
  show ?thesis
    using 1 m 2 3 4 length_splice1[OF i] unfolding el by blast
qed

theorem move_between_tabs_witness:
  "obj_get (stored (fst (update_message (board two_tab_doc)
       (no_args\<lparr>messageId := Some ''tab2-msg0'', category := Some ''First Messages''\<rparr>)))) ''2''
     = Some (JArr [])
   \<and> obj_get (stored (fst (update_message (board two_tab_doc)
       (no_args\<lparr>messageId := Some ''tab2-msg0'', category := Some ''First Messages''\<rparr>)))) ''1''
     = Some (JArr [JStr ''hello'', JStr ''world''])
   \<and> total_messages (stored (fst (update_message (board two_tab_doc)
       (no_args\<lparr>messageId := Some ''tab2-msg0'', category := Some ''First Messages''\<rparr>))))
     = total_messages two_tab_doc"
proof -
  let ?w = "board two_tab_doc"
  let ?a = "no_args\<lparr>messageId := Some ''tab2-msg0'', category := Some ''First Messages''\<rparr>"
  have h: "http_ok (load_status ?w)" "distinct (map fst (stored ?w))"
    "truthy_str (messageId ?a)" "decode_id (str (messageId ?a)) = Inr (''2'', 0)"
    "\<not> message_missing (stored ?w) ''2'' 0" "\<not> truthy_str (content ?a)"
    "truthy_str (category ?a)" "scan_names TAB_NAMES ''2'' (str (category ?a)) = ''1''"
    "''1'' \<noteq> ''2''"
    by code_simp+
  have s: "http_ok (save_status ?w)" "stored ?w = two_tab_doc" by code_simp+
  have e: "array_get (elements (obj_get (stored ?w) ''2'')) 0 = Some (JStr ''world'')"
    "splice1 (elements (obj_get (stored ?w) ''2'')) 0 = []"
    "coerced (obj_get (stored ?w) ''1'') = [JStr ''hello'']"
    "(if truthy_opt (obj_get (stored ?w) ''1'') \<and> \<not> isArray (obj_get (stored ?w) ''1'')
      then 1 else 0) = (0::nat)"
    by code_simp+
  from move_between_tabs [OF h] obtain d m where
    d: "fst (update_message ?w ?a) = save_data ?w d"
      "Some (JStr ''world'') = Some m"
      "obj_get d ''2'' = Some (JArr [])"
      "obj_get d ''1'' = Some (JArr ([JStr ''hello''] @ [m]))"
      "total_messages d = total_messages (stored ?w) + 0"
    unfolding e by blast
  have "stored (fst (update_message ?w ?a)) = d" using d(1) s(1) by (simp add: save_data_def)
  with d(2,3,4,5) s(2) show ?thesis by simp
qed

text \<open>
  C2 as stated fails on a destination that is not a sequence.  A truthy destination (tab 2
  holds the string \<^verbatim>\<open>legacy\<close>) becomes a two-element sequence, so the document goes from one
  message to two.  A falsy destination (tab 2 holds the empty string) is not wrapped: the
  destination ends with one element, not with the two the coercion of the claim gives.
\<close>

theorem legacy_destination_counterexample:
  "total_messages (stored (fst (update_message (board legacy_doc)
        (no_args\<lparr>messageId := Some ''tab1-msg0'', category := Some ''Second Messages''\<rparr>))))
      \<noteq> total_messages legacy_doc
   \<and> total_messages legacy_doc = 1
   \<and> total_messages (stored (fst (update_message (board legacy_doc)
        (no_args\<lparr>messageId := Some ''tab1-msg0'', category := Some ''Second Messages''\<rparr>))))
      = 2
   \<and> obj_get (stored (fst (update_message (board legacy_doc)
        (no_args\<lparr>messageId := Some ''tab1-msg0'', category := Some ''Second Messages''\<rparr>)))) ''2''
      = Some (JArr [JStr ''legacy'', JStr ''a''])
   \<and> claimed_sequence (obj_get blank_destination_doc ''2'') @ [JStr ''a''] = [JStr '''', JStr ''a'']
   \<and> obj_get (stored (fst (update_message (board blank_destination_doc)
        (no_args\<lparr>messageId := Some ''tab1-msg0'', category := Some ''Second Messages''\<rparr>)))) ''2''
      = Some (JArr [JStr ''a''])"
  by code_simp

end
